theory Spec2Isabelle
  imports Main "HOL-Library.Monad_Syntax"
begin

section \<open>JavaScript values used by the product listing page\<close>

text \<open>
  The page number travels through \<^verbatim>\<open>src/app/page.js\<close> either as the number \<^verbatim>\<open>1\<close>
  (the default of \<^verbatim>\<open>searchParams.page || 1\<close>) or as the string taken from the URL query.

  The source computes with IEEE doubles. The integers from \<open>- (2 ^ 53 - 1)\<close> to
  \<open>2 ^ 53 - 1\<close> are doubles; the sum, the difference and the product of two of them is the
  exact result whenever that result lies in the same range; and \<^verbatim>\<open>Number::toString\<close> prints
  such an integer with all its decimal digits. The model covers this range and \<^verbatim>\<open>NaN\<close>, and
  nothing else: \<open>Num n\<close> stands for a number only when \<open>n\<close> is in the range, and every
  operation that reads, computes or prints a number answers \<open>None\<close> as soon as an operand
  or the result is outside of it, where the source would round, print an exponent, or hold
  a fraction or an infinity. Negative zero is identified with zero: here it can only come
  from parsing, and the subtraction, addition, comparison, truthiness and printing applied
  to it afterwards treat both alike.

  A \<^typ>\<open>string\<close> stands for a JavaScript string whose code units are below 256.
\<close>

definition MAX_SAFE_INTEGER :: int where
  "MAX_SAFE_INTEGER = 9007199254740991"

definition safe :: "int \<Rightarrow> bool" where
  "safe n = (- MAX_SAFE_INTEGER \<le> n \<and> n \<le> MAX_SAFE_INTEGER)"

datatype jsnum = Num int | NaN

datatype jsval = JNum jsnum | JStr string

text \<open>The number of an integer value, when the model has it.\<close>

definition exact :: "int \<Rightarrow> jsnum option" where
  "exact v = (if safe v then Some (Num v) else None)"

subsection \<open>Number to string\<close>

definition digit_char :: "nat \<Rightarrow> char" where
  "digit_char d = ''0123456789'' ! d"

function decimal :: "nat \<Rightarrow> string" where
  "decimal n = (if n < 10 then [digit_char n] else decimal (n div 10) @ [digit_char (n mod 10)])"
  by pat_completeness auto
termination
  by (relation "measure (\<lambda>n. n)") auto

declare decimal.simps [simp del]

definition int_digits :: "int \<Rightarrow> string" where
  "int_digits n = (if n < 0 then CHR ''-'' # decimal (nat (- n)) else decimal (nat n))"

text \<open>\<^verbatim>\<open>Number::toString\<close> on an integer of the range and on \<^verbatim>\<open>NaN\<close>.\<close>

fun NumberToString :: "jsnum \<Rightarrow> string option" where
  "NumberToString NaN = Some ''NaN''"
| "NumberToString (Num n) = (if safe n then Some (int_digits n) else None)"

text \<open>\<^verbatim>\<open>ToString\<close>, as applied by template literals and by JSX text children.\<close>

fun ToString :: "jsval \<Rightarrow> string option" where
  "ToString (JStr s) = Some s"
| "ToString (JNum n) = NumberToString n"

subsection \<open>String to number\<close>

text \<open>White space and line terminators among the code units below 256.\<close>

definition is_space :: "char \<Rightarrow> bool" where
  "is_space c = (of_char c \<in> {9, 10, 11, 12, 13, 32, 160 :: nat})"

definition is_digit :: "char \<Rightarrow> bool" where
  "is_digit c = (48 \<le> (of_char c :: nat) \<and> (of_char c :: nat) \<le> 57)"

definition digit_val :: "char \<Rightarrow> int" where
  "digit_val c = int (of_char c) - 48"

definition digits_val :: "string \<Rightarrow> int" where
  "digits_val ds = foldl (\<lambda>acc c. acc * 10 + digit_val c) 0 ds"

text \<open>
  \<^verbatim>\<open>parseInt(x, 10)\<close>: convert to a string, drop leading white space, read an optional sign,
  then the longest prefix of decimal digits; \<^verbatim>\<open>NaN\<close> when that prefix is empty. Whatever
  follows the digits is ignored. \<open>None\<close> when the integer read is outside the range.
\<close>

definition parseInt10 :: "jsval \<Rightarrow> jsnum option" where
  "parseInt10 x =
     do {
       inputString \<leftarrow> ToString x;
       let S = dropWhile is_space inputString;
       let sign = (if S \<noteq> [] \<and> hd S = CHR ''-'' then - 1 else 1 :: int);
       let S' = (if S \<noteq> [] \<and> (hd S = CHR ''+'' \<or> hd S = CHR ''-'') then tl S else S);
       let Z = takeWhile is_digit S';
       if Z = [] then Some NaN else exact (sign * digits_val Z)
     }"

text \<open>
  \<^verbatim>\<open>ToNumber\<close> on a string, the coercion behind \<^verbatim>\<open>page - 1\<close> and \<^verbatim>\<open>page > 10\<close>, follows
  the grammar of string numeric literals. White space is trimmed on both sides and the
  empty string is \<open>0\<close>. A decimal literal is an optional sign, then digits with an optional
  fraction (\<^verbatim>\<open>12\<close>, \<^verbatim>\<open>12.\<close>, \<^verbatim>\<open>12.50\<close>, \<^verbatim>\<open>.5\<close>), then an optional exponent (\<^verbatim>\<open>e3\<close>,
  \<^verbatim>\<open>E-2\<close>); a literal with a radix prefix (\<^verbatim>\<open>0x\<close>, \<^verbatim>\<open>0o\<close>, \<^verbatim>\<open>0b\<close>) has no sign. A
  string that is no literal is \<^verbatim>\<open>NaN\<close>. A literal whose value is an integer of the range is
  that number; for \<^verbatim>\<open>Infinity\<close> and for a value that is not an integer or not in the
  range the result is \<open>None\<close>.
\<close>

definition trim :: "string \<Rightarrow> string" where
  "trim s = rev (dropWhile is_space (rev (dropWhile is_space s)))"

text \<open>A signed integer: the digits of an exponent with their optional sign.\<close>

definition signed_digits :: "string \<Rightarrow> int option" where
  "signed_digits r =
     (let ds = (if r \<noteq> [] \<and> (hd r = CHR ''+'' \<or> hd r = CHR ''-'') then tl r else r)
      in if ds \<noteq> [] \<and> list_all is_digit ds
         then Some ((if hd r = CHR ''-'' then - 1 else 1) * digits_val ds)
         else None)"

text \<open>What follows the mantissa: nothing (exponent 0) or an exponent part, up to the end.\<close>

definition exponent_part :: "string \<Rightarrow> int option" where
  "exponent_part r =
     (if r = [] then Some 0
      else if hd r = CHR ''e'' \<or> hd r = CHR ''E'' then signed_digits (tl r)
      else None)"

text \<open>
  An unsigned decimal literal other than \<^verbatim>\<open>Infinity\<close>, as a pair \<open>(m, k)\<close> that stands for
  \<open>m * 10 ^ k\<close>; \<open>None\<close> when the string is no such literal.
\<close>

definition unsigned_decimal :: "string \<Rightarrow> (int \<times> int) option" where
  "unsigned_decimal u =
     (let I = takeWhile is_digit u; r = dropWhile is_digit u
      in if r \<noteq> [] \<and> hd r = CHR ''.''
         then (let F = takeWhile is_digit (tl r); r' = dropWhile is_digit (tl r)
               in if I = [] \<and> F = [] then None
                  else map_option (\<lambda>e. (digits_val (I @ F), e - int (length F)))
                         (exponent_part r'))
         else if I = [] then None
         else map_option (\<lambda>e. (digits_val I, e)) (exponent_part r))"

text \<open>The integer \<open>m * 10 ^ k\<close>; \<open>None\<close> when that value is not an integer.\<close>

definition scaled :: "int \<Rightarrow> int \<Rightarrow> int option" where
  "scaled m k =
     (if 0 \<le> k then Some (m * 10 ^ nat k)
      else if m mod 10 ^ nat (- k) = 0 then Some (m div 10 ^ nat (- k))
      else None)"

text \<open>Literals with a radix prefix.\<close>

definition hex_val :: "char \<Rightarrow> int option" where
  "hex_val c =
     (let n = int (of_char c)
      in if 48 \<le> n \<and> n \<le> 57 then Some (n - 48)
         else if 97 \<le> n \<and> n \<le> 102 then Some (n - 87)
         else if 65 \<le> n \<and> n \<le> 70 then Some (n - 55)
         else None)"

fun radix_val :: "int \<Rightarrow> int \<Rightarrow> string \<Rightarrow> int option" where
  "radix_val R acc [] = Some acc"
| "radix_val R acc (c # cs) =
     (case hex_val c of
        None \<Rightarrow> None
      | Some d \<Rightarrow> if d < R then radix_val R (acc * R + d) cs else None)"

definition non_decimal :: "string \<Rightarrow> int option" where
  "non_decimal t =
     (if 2 < length t \<and> hd t = CHR ''0''
      then (let p = t ! 1; ds = drop 2 t
            in if p = CHR ''x'' \<or> p = CHR ''X'' then radix_val 16 0 ds
               else if p = CHR ''o'' \<or> p = CHR ''O'' then radix_val 8 0 ds
               else if p = CHR ''b'' \<or> p = CHR ''B'' then radix_val 2 0 ds
               else None)
      else None)"

definition StringToNumber :: "string \<Rightarrow> jsnum option" where
  "StringToNumber s =
     (let t = trim s;
          negative = (t \<noteq> [] \<and> hd t = CHR ''-'');
          u = (if t \<noteq> [] \<and> (hd t = CHR ''+'' \<or> hd t = CHR ''-'') then tl t else t)
      in if t = [] then Some (Num 0)
         else if u = ''Infinity'' then None
         else (case unsigned_decimal u of
                 Some (m, k) \<Rightarrow>
                   (case scaled m k of
                      None \<Rightarrow> None
                    | Some v \<Rightarrow> exact (if negative then - v else v))
               | None \<Rightarrow>
                   (case non_decimal t of
                      Some v \<Rightarrow> exact v
                    | None \<Rightarrow> Some NaN)))"

fun ToNumber :: "jsval \<Rightarrow> jsnum option" where
  "ToNumber (JNum NaN) = Some NaN"
| "ToNumber (JNum (Num n)) = exact n"
| "ToNumber (JStr s) = StringToNumber s"

subsection \<open>Arithmetic and comparison\<close>

text \<open>
  \<^verbatim>\<open>a - b\<close>, \<^verbatim>\<open>a + b\<close> and \<^verbatim>\<open>a * b\<close> on numbers: \<^verbatim>\<open>NaN\<close> as soon as one side is \<^verbatim>\<open>NaN\<close>;
  the exact result when both sides and the result are in the range; \<open>None\<close> otherwise.
\<close>

fun js_sub :: "jsnum \<Rightarrow> jsnum \<Rightarrow> jsnum option" where
  "js_sub (Num a) (Num b) = (if safe a \<and> safe b then exact (a - b) else None)"
| "js_sub _ _ = Some NaN"

fun js_add :: "jsnum \<Rightarrow> jsnum \<Rightarrow> jsnum option" where
  "js_add (Num a) (Num b) = (if safe a \<and> safe b then exact (a + b) else None)"
| "js_add _ _ = Some NaN"

fun js_mul :: "jsnum \<Rightarrow> jsnum \<Rightarrow> jsnum option" where
  "js_mul (Num a) (Num b) = (if safe a \<and> safe b then exact (a * b) else None)"
| "js_mul _ _ = Some NaN"

text \<open>
  \<^verbatim>\<open>a > b\<close> on numbers: false as soon as one side is \<^verbatim>\<open>NaN\<close>, and the comparison of the
  integers otherwise, which is the comparison of the doubles they stand for.
\<close>

fun js_gt :: "jsnum \<Rightarrow> jsnum \<Rightarrow> bool" where
  "js_gt (Num a) (Num b) = (a > b)"
| "js_gt _ _ = False"

text \<open>Truthiness of a number: neither zero nor \<^verbatim>\<open>NaN\<close>.\<close>

fun num_truthy :: "jsnum \<Rightarrow> bool" where
  "num_truthy (Num a) = (a \<noteq> 0)"
| "num_truthy NaN = False"

section \<open>The Fetcher: \<^verbatim>\<open>fetchProducts\<close>\<close>

text \<open>
  What \<^verbatim>\<open>fetch\<close> can do with a request: reject (network failure, with the message of the
  thrown error) or resolve to a response. Of a response the source reads \<^verbatim>\<open>ok\<close>,
  \<^verbatim>\<open>status\<close>, \<^verbatim>\<open>statusText\<close> and \<^verbatim>\<open>json()\<close>. Field \<open>json\<close> is \<open>Inr\<close> of the parsed
  data, or \<open>Inl\<close> of the message of the error thrown on the way to it: \<^verbatim>\<open>json()\<close> rejects
  on a malformed body, and reading \<^verbatim>\<open>data.length\<close> throws when the body is \<^verbatim>\<open>null\<close>. The
  documented return type of \<^verbatim>\<open>fetchProducts\<close> takes the data to be an array; its
  elements are kept abstract (type \<open>'p\<close>). The status of a response is a small integer
  (below \<open>2 ^ 16\<close> by the Fetch standard), which a template literal prints with all its
  digits.
\<close>

record 'p response =
  ok :: bool
  status :: nat
  statusText :: string
  json :: "string + 'p list"

datatype 'p fetch_outcome = Rejected string | Responded "'p response"

text \<open>The network: what each URL answers, and the log of the requests issued so far.\<close>

record 'p network =
  respond :: "string \<Rightarrow> 'p fetch_outcome"
  requests :: "string list"

definition fetch :: "string \<Rightarrow> 'p network \<Rightarrow> 'p fetch_outcome \<times> 'p network" where
  "fetch url w = (respond w url, w\<lparr>requests := requests w @ [url]\<rparr>)"

text \<open>
  The object \<^verbatim>\<open>{products, hasMore}\<close> that \<^verbatim>\<open>fetchProducts\<close> resolves to, its fields named
  apart from the state variables of the page; a rejection is the message of its \<^verbatim>\<open>Error\<close>.
\<close>

record 'p fetched =
  fetchedProducts :: "'p list"
  fetchedHasMore :: bool

text \<open>Line 17: the default parameter \<^verbatim>\<open>page = 1\<close> applies when no argument is passed.\<close>

definition page_arg :: "jsval option \<Rightarrow> jsval" where
  "page_arg a = (case a of None \<Rightarrow> JNum (Num 1) | Some v \<Rightarrow> v)"

text \<open>Line 18: \<^verbatim>\<open>const skip = (page - 1) * 20\<close>.\<close>

definition skip_of :: "jsnum \<Rightarrow> jsnum option" where
  "skip_of page = do { d \<leftarrow> js_sub page (Num 1); js_mul d (Num 20) }"

text \<open>Line 22: the template literal of the request URL.\<close>

definition products_url :: "jsnum \<Rightarrow> string option" where
  "products_url skip =
     do {
       digits \<leftarrow> NumberToString skip;
       Some (''https://next-ecommerce-api.vercel.app/products?skip='' @ digits @ ''&limit=20'')
     }"

text \<open>
  Lines 25 to 33, the body of the \<^verbatim>\<open>try\<close> once \<^verbatim>\<open>fetch\<close> has settled: \<open>Inl\<close> is the
  message of whatever was thrown inside the \<^verbatim>\<open>try\<close>, \<open>Inr\<close> the returned object.
\<close>

definition try_body :: "'p fetch_outcome \<Rightarrow> string + 'p fetched" where
  "try_body out =
     (case out of
        Rejected msg \<Rightarrow> Inl msg
      | Responded res \<Rightarrow>
          if \<not> ok res
          then Inl (''Failed to fetch products: '' @ decimal (status res) @ '' '' @ statusText res)
          else (case json res of
                  Inl msg \<Rightarrow> Inl msg
                | Inr data \<Rightarrow> Inr \<lparr>fetchedProducts = data, fetchedHasMore = (length data = 20)\<rparr>))"

text \<open>Lines 34 to 37: the \<^verbatim>\<open>catch\<close> wraps every thrown error, the one of line 26 included.\<close>

definition fetchProducts_settle :: "'p fetch_outcome \<Rightarrow> string + 'p fetched" where
  "fetchProducts_settle out =
     (case try_body out of
        Inl msg \<Rightarrow> Inl (''Error fetching products: '' @ msg)
      | Inr r \<Rightarrow> Inr r)"

text \<open>
  Lines 17 to 23, the part that runs before the \<^verbatim>\<open>await\<close>: the URL of the request issued
  for a page argument. \<open>None\<close> only when the page or the offset is outside the model.
\<close>

definition fetchProducts_request :: "jsval option \<Rightarrow> string option" where
  "fetchProducts_request a =
     do {
       page \<leftarrow> ToNumber (page_arg a);
       skip \<leftarrow> skip_of page;
       products_url skip
     }"

text \<open>The whole function against a network.\<close>

definition fetchProducts ::
  "jsval option \<Rightarrow> 'p network \<Rightarrow> ((string + 'p fetched) \<times> 'p network) option" where
  "fetchProducts a w =
     (case fetchProducts_request a of
        None \<Rightarrow> None
      | Some url \<Rightarrow> (let (out, w') = fetch url w in Some (fetchProducts_settle out, w')))"

section \<open>The Pagination Control\<close>

text \<open>
  What \<^verbatim>\<open>Pagination\<close> renders: the target of the Previous Page link when there is one, the
  text of the label, the target of the Next Page link when there is one.
\<close>

record pagination =
  prevLink :: "string option"
  label :: string
  nextLink :: "string option"

text \<open>
  Lines 136 to 159. \<^verbatim>\<open>prevPage\<close> is \<^verbatim>\<open>null\<close> (\<open>None\<close>) or a number, and
  \<^verbatim>\<open>prevPage && ...\<close> renders the link when it is truthy. Each link target is printed
  only when its link is rendered. The label interpolates the property \<^verbatim>\<open>currentPage\<close>
  as it was passed, not the parsed \<^verbatim>\<open>pageNum\<close>. \<open>None\<close> when one of the numbers is
  outside the model.
\<close>

definition link_to :: "jsnum \<Rightarrow> string option" where
  "link_to n = do { digits \<leftarrow> NumberToString n; Some (''/?page='' @ digits) }"

definition Pagination :: "jsval \<Rightarrow> bool \<Rightarrow> pagination option" where
  "Pagination currentPage hasMore' =
     do {
       pageNum \<leftarrow> parseInt10 currentPage;
       prevPage \<leftarrow> (if js_gt pageNum (Num 1)
                     then map_option Some (js_sub pageNum (Num 1))
                     else Some None);
       nextPage \<leftarrow> js_add pageNum (Num 1);
       prev \<leftarrow> (case prevPage of
                   None \<Rightarrow> Some None
                 | Some n \<Rightarrow> if num_truthy n then map_option Some (link_to n) else Some None);
       shown \<leftarrow> ToString currentPage;
       next \<leftarrow> (if hasMore' then map_option Some (link_to nextPage) else Some None);
       Some \<lparr>prevLink = prev, label = ''Page '' @ shown @ '' of 10'', nextLink = next\<rparr>
     }"

section \<open>The Page Controller: \<^verbatim>\<open>ProductsPage\<close>\<close>

text \<open>Lines 48 to 51: the four state variables and their initial values.\<close>

record 'p page_state =
  loading :: bool
  products :: "'p list"
  error :: "string option"
  hasMore :: bool

definition initial_state :: "'p page_state" where
  "initial_state = \<lparr>loading = True, products = [], error = None, hasMore = True\<rparr>"

text \<open>
  Line 53: \<^verbatim>\<open>searchParams.page || 1\<close>. The query parameter is absent or a string; the empty
  string is falsy.
\<close>

definition page_of :: "string option \<Rightarrow> jsval" where
  "page_of q = (case q of None \<Rightarrow> JNum (Num 1) | Some s \<Rightarrow> if s = [] then JNum (Num 1) else JStr s)"

text \<open>
  \<^verbatim>\<open>loadProducts\<close> (lines 59 to 75) runs in two parts around its \<^verbatim>\<open>await\<close>. Before it:
  line 61, and the call of \<^verbatim>\<open>fetchProducts\<close> up to the request.
\<close>

definition loadProducts_start :: "'p page_state \<Rightarrow> 'p page_state" where
  "loadProducts_start s = s\<lparr>loading := True\<rparr>"

text \<open>Line 65: \<^verbatim>\<open>page > 10\<close>, with \<^verbatim>\<open>page\<close> coerced to a number.\<close>

definition page_gt_10 :: "jsval \<Rightarrow> bool option" where
  "page_gt_10 page' = (case ToNumber page' of None \<Rightarrow> None | Some n \<Rightarrow> Some (js_gt n (Num 10)))"

text \<open>After it, when \<^verbatim>\<open>fetchProducts\<close> resolved: lines 62 to 69, then line 73.\<close>

definition loadProducts_fulfilled ::
  "jsval \<Rightarrow> 'p fetched \<Rightarrow> 'p page_state \<Rightarrow> 'p page_state option" where
  "loadProducts_fulfilled page' r s =
     (case page_gt_10 page' of
        None \<Rightarrow> None
      | Some gt \<Rightarrow>
          (let s1 = (if gt \<or> \<not> fetchedHasMore r then s\<lparr>hasMore := False\<rparr> else s);
               s2 = s1\<lparr>products := fetchedProducts r\<rparr>
           in Some (s2\<lparr>loading := False\<rparr>)))"

text \<open>When \<^verbatim>\<open>fetchProducts\<close> rejected: lines 70 to 74. The caught error is not used.\<close>

definition error_message :: string where
  "error_message = ''Failed to load products. Please try again later.''"

definition loadProducts_rejected :: "string \<Rightarrow> 'p page_state \<Rightarrow> 'p page_state" where
  "loadProducts_rejected err s = (let s1 = s\<lparr>error := Some error_message\<rparr> in s1\<lparr>loading := False\<rparr>)"

text \<open>
  The mounted component: its state, the page of the current render, and the calls of
  \<^verbatim>\<open>loadProducts\<close> that wait for their response, each with the page its closure captured
  and the URL it requested.
\<close>

record 'p component =
  state :: "'p page_state"
  page :: jsval
  inflight :: "(jsval \<times> string) list"

text \<open>Lines 55 to 78: the effect calls \<^verbatim>\<open>loadProducts\<close>, which runs up to its \<^verbatim>\<open>await\<close>.\<close>

definition run_effect :: "'p component \<Rightarrow> 'p component option" where
  "run_effect c =
     (case fetchProducts_request (Some (page c)) of
        None \<Rightarrow> None
      | Some url \<Rightarrow>
          Some (c\<lparr>state := loadProducts_start (state c), inflight := inflight c @ [(page c, url)]\<rparr>))"

definition mount :: "string option \<Rightarrow> 'p component option" where
  "mount q = run_effect \<lparr>state = initial_state, page = page_of q, inflight = []\<rparr>"

text \<open>
  A navigation re-renders the mounted component with new \<^verbatim>\<open>searchParams\<close>; the effect
  runs again when its dependency \<^verbatim>\<open>page\<close> changed.
\<close>

definition navigate :: "string option \<Rightarrow> 'p component \<Rightarrow> 'p component option" where
  "navigate q c = (if page_of q = page c then Some c else run_effect (c\<lparr>page := page_of q\<rparr>))"

text \<open>
  The request at position \<open>i\<close> settles with an outcome, and the waiting \<^verbatim>\<open>loadProducts\<close>
  runs to its end; the state updates of one such run are applied together.
\<close>

definition settle :: "nat \<Rightarrow> 'p fetch_outcome \<Rightarrow> 'p component \<Rightarrow> 'p component option" where
  "settle i out c =
     (if i < length (inflight c)
      then (let rest = take i (inflight c) @ drop (Suc i) (inflight c)
            in case fetchProducts_settle out of
                 Inl err \<Rightarrow> Some (c\<lparr>state := loadProducts_rejected err (state c), inflight := rest\<rparr>)
               | Inr r \<Rightarrow>
                   (case loadProducts_fulfilled (fst (inflight c ! i)) r (state c) of
                      None \<Rightarrow> None
                    | Some s' \<Rightarrow> Some (c\<lparr>state := s', inflight := rest\<rparr>)))
      else None)"

datatype 'p event = Navigate "string option" | Settle nat "'p fetch_outcome"

fun step :: "'p component \<Rightarrow> 'p event \<Rightarrow> 'p component option" where
  "step c (Navigate q) = navigate q c"
| "step c (Settle i out) = settle i out c"

fun run :: "'p component \<Rightarrow> 'p event list \<Rightarrow> 'p component option" where
  "run c [] = Some c"
| "run c (e # es) = (case step c e of None \<Rightarrow> None | Some c' \<Rightarrow> run c' es)"

inductive reachable :: "'p component \<Rightarrow> bool" where
  mounted: "mount q = Some c \<Longrightarrow> reachable c"
| stepped: "reachable c \<Longrightarrow> step c e = Some c' \<Longrightarrow> reachable c'"

subsection \<open>Rendering\<close>

text \<open>
  The three views. The grid holds the products and what \<^verbatim>\<open>Pagination\<close> renders, which is
  \<open>None\<close> when the page number takes the pagination outside the model.
\<close>

datatype 'p view = SkeletonLoader | ErrorText string | ProductGrid "'p list" "pagination option"

text \<open>
  Lines 80 to 125: the skeleton while loading; else the error text when \<^verbatim>\<open>error\<close> is
  truthy (a string that is not empty); else the grid of the products with the pagination.
\<close>

definition render :: "'p component \<Rightarrow> 'p view" where
  "render c =
     (let grid = ProductGrid (products (state c)) (Pagination (page c) (hasMore (state c)))
      in if loading (state c) then SkeletonLoader
         else (case error (state c) of
                 None \<Rightarrow> grid
               | Some msg \<Rightarrow> if msg \<noteq> [] then ErrorText msg else grid))"

text \<open>A trace of the component: mount with a query parameter, then the events in order.\<close>

definition run_from :: "string option \<Rightarrow> 'p event list \<Rightarrow> 'p component option" where
  "run_from q es = (case mount q of None \<Rightarrow> None | Some c \<Rightarrow> run c es)"

section \<open>Sample data\<close>

text \<open>
  Responses and a network for the concrete instances below: a full page of twenty products,
  a short page of five, a server error and a body that is not JSON. Products are
  represented by numbers.
\<close>

definition full_page :: "nat response" where
  "full_page = \<lparr>ok = True, status = 200, statusText = ''OK'', json = Inr (replicate 20 7)\<rparr>"

definition short_page :: "nat response" where
  "short_page = \<lparr>ok = True, status = 200, statusText = ''OK'', json = Inr [1, 2, 3, 4, 5]\<rparr>"

definition server_error :: "nat response" where
  "server_error =
     \<lparr>ok = False, status = 500, statusText = ''Internal Server Error'', json = Inr []\<rparr>"

definition bad_body :: "nat response" where
  "bad_body =
     \<lparr>ok = True, status = 200, statusText = ''OK'', json = Inl ''Unexpected end of JSON input''\<rparr>"

definition sample_net :: "nat network" where
  "sample_net =
     \<lparr>respond = (\<lambda>url.
          if url = ''https://next-ecommerce-api.vercel.app/products?skip=0&limit=20''
            then Responded full_page
          else if url = ''https://next-ecommerce-api.vercel.app/products?skip=40&limit=20''
            then Responded short_page
          else Rejected ''Failed to fetch''),
      requests = []\<rparr>"

text \<open>A network that gives every request the same outcome.\<close>

definition answering :: "nat fetch_outcome \<Rightarrow> nat network" where
  "answering out = \<lparr>respond = (\<lambda>url. out), requests = []\<rparr>"

text \<open>A component that waits for the response to its first request, for a page given as a string.\<close>

definition waiting :: "string \<Rightarrow> string \<Rightarrow> nat component" where
  "waiting p url = \<lparr>state = initial_state, page = JStr p, inflight = [(JStr p, url)]\<rparr>"

text \<open>
  The component after a short first page and a navigation to page 2: the second request is
  in flight and the five products of the first page are still in the state.
\<close>

definition stale_loading :: "nat component" where
  "stale_loading =
     \<lparr>state = \<lparr>loading = True, products = [1, 2, 3, 4, 5], error = None, hasMore = False\<rparr>,
      page = JStr ''2'',
      inflight = [(JStr ''2'', ''https://next-ecommerce-api.vercel.app/products?skip=20&limit=20'')]\<rparr>"

text \<open>The component after its first request failed.\<close>

definition failed_first :: "nat component" where
  "failed_first =
     \<lparr>state = \<lparr>loading = False, products = [],
               error = Some ''Failed to load products. Please try again later.'', hasMore = True\<rparr>,
      page = JNum (Num 1), inflight = []\<rparr>"

text \<open>The component showing page 11 after a full page arrived for it.\<close>

definition past_limit :: "nat component" where
  "past_limit =
     \<lparr>state = \<lparr>loading = False, products = replicate 20 7, error = None, hasMore = False\<rparr>,
      page = JStr ''11'', inflight = []\<rparr>"

section \<open>Evaluation and invariants\<close>

lemmas eval_defs =
  MAX_SAFE_INTEGER_def safe_def exact_def int_digits_def signed_digits_def exponent_part_def
  unsigned_decimal_def scaled_def hex_val_def non_decimal_def link_to_def
  page_arg_def page_of_def StringToNumber_def trim_def is_space_def is_digit_def digits_val_def
  digit_val_def digit_char_def decimal.simps skip_of_def products_url_def fetchProducts_request_def
  fetchProducts_settle_def try_body_def parseInt10_def Pagination_def fetch_def fetchProducts_def
  initial_state_def loadProducts_start_def page_gt_10_def loadProducts_fulfilled_def
  error_message_def loadProducts_rejected_def run_effect_def mount_def navigate_def settle_def
  render_def run_from_def

lemmas sample_defs =
  full_page_def short_page_def server_error_def bad_body_def sample_net_def answering_def waiting_def
  stale_loading_def failed_first_def past_limit_def

text \<open>Spellings of a page number that the coercion accepts, and strings that are no number.\<close>

lemma ToNumber_spellings:
  "ToNumber (JStr ''11'') = Some (Num 11)"
  "ToNumber (JStr '' 11 '') = Some (Num 11)"
  "ToNumber (JStr ''11.0'') = Some (Num 11)"
  "ToNumber (JStr ''1.1e1'') = Some (Num 11)"
  "ToNumber (JStr ''0xB'') = Some (Num 11)"
  "ToNumber (JStr []) = Some (Num 0)"
  "ToNumber (JStr ''11th'') = Some NaN"
  "ToNumber (JStr ''abc'') = Some NaN"
  by (simp_all add: eval_defs)

text \<open>
  Where the model stops: a fraction, an infinity, and the first integers beyond the range,
  which the source rounds.
\<close>

lemma outside_the_model:
  "ToNumber (JStr ''1.5'') = None"
  "ToNumber (JStr ''Infinity'') = None"
  "ToNumber (JStr ''9007199254740993'') = None"
  "parseInt10 (JStr ''9007199254740993'') = None"
  "fetchProducts_request (Some (JStr ''450359962737051'')) = None"
  "Pagination (JStr ''9007199254740991'') True = None"
  by (simp_all add: eval_defs)

lemma fetchProducts_settled:
  "fetchProducts_request a = Some url \<Longrightarrow>
   map_option fst (fetchProducts a w) = Some (fetchProducts_settle (respond w url))"
  by (simp add: fetchProducts_def fetch_def)

lemma parseInt10_safe: "parseInt10 x = Some (Num n) \<Longrightarrow> safe n"
  by (auto simp: parseInt10_def exact_def Let_def split: Option.bind_splits if_splits)

lemma settle_Inr_iff:
  "(\<exists>r. fetchProducts_settle out = Inr r) \<longleftrightarrow>
   (\<exists>res data. out = Responded res \<and> ok res \<and> json res = Inr data)"
  by (auto simp: fetchProducts_settle_def try_body_def
           split: fetch_outcome.splits sum.splits if_splits)

lemma run_effect_state:
  "run_effect c = Some c' \<Longrightarrow> state c' = (state c)\<lparr>loading := True\<rparr> \<and> page c' = page c"
  by (auto simp: run_effect_def loadProducts_start_def split: option.splits)

lemma step_hasMore: "step c e = Some c' \<Longrightarrow> hasMore (state c') \<Longrightarrow> hasMore (state c)"
  by (cases e)
     (auto simp: navigate_def settle_def loadProducts_rejected_def loadProducts_fulfilled_def Let_def
           dest!: run_effect_state split: if_splits sum.splits option.splits)

lemma run_hasMore: "run c es = Some c' \<Longrightarrow> \<not> hasMore (state c) \<Longrightarrow> \<not> hasMore (state c')"
  by (induction es arbitrary: c) (auto split: option.splits dest: step_hasMore)

lemma step_error:
  "step c e = Some c' \<Longrightarrow>
   error (state c') = error (state c) \<or> error (state c') = Some error_message"
  by (cases e)
     (auto simp: navigate_def settle_def loadProducts_rejected_def loadProducts_fulfilled_def Let_def
           dest!: run_effect_state split: if_splits sum.splits option.splits)

lemma reachable_error:
  "reachable c \<Longrightarrow> error (state c) = None \<or> error (state c) = Some error_message"
proof (induction rule: reachable.induct)
  case (mounted q c)
  then show ?case
    by (auto simp: mount_def initial_state_def dest!: run_effect_state)
next
  case (stepped c e c')
  then show ?case
    using step_error [of c e c'] by auto
qed

lemma reachable_run: "reachable c \<Longrightarrow> run c es = Some c' \<Longrightarrow> reachable c'"
  by (induction es arbitrary: c) (auto split: option.splits intro: reachable.stepped)

lemma run_from_reachable: "run_from q es = Some c \<Longrightarrow> reachable c"
  by (auto simp: run_from_def split: option.splits intro: reachable.mounted reachable_run)

lemma run_snoc: "run c (es @ [e]) = (case run c es of None \<Rightarrow> None | Some c' \<Rightarrow> step c' e)"
  by (induction es arbitrary: c) (auto split: option.splits)

text \<open>The reachable components are exactly the ends of the traces.\<close>

lemma reachable_iff_run_from: "reachable c \<longleftrightarrow> (\<exists>q es. run_from q es = Some c)"
proof
  assume "reachable c"
  then show "\<exists>q es. run_from q es = Some c"
  proof (induction rule: reachable.induct)
    case (mounted q c)
    then have "run_from q [] = Some c"
      by (simp add: run_from_def)
    then show ?case by blast
  next
    case (stepped c e c')
    then obtain q es where "run_from q es = Some c"
      by blast
    with stepped.hyps(2) have "run_from q (es @ [e]) = Some c'"
      by (auto simp: run_from_def run_snoc split: option.splits)
    then show ?case by blast
  qed
next
  assume "\<exists>q es. run_from q es = Some c"
  then show "reachable c"
    by (auto intro: run_from_reachable)
qed

lemma reachable_stale_loading: "reachable stale_loading"
proof -
  have "run_from None [Settle 0 (Responded short_page), Navigate (Some ''2'')] = Some stale_loading"
    by (simp add: eval_defs sample_defs)
  then show ?thesis by (rule run_from_reachable)
qed

lemma reachable_failed_first: "reachable failed_first"
proof -
  have "run_from None [Settle 0 (Rejected ''Failed to fetch'')] = Some failed_first"
    by (simp add: eval_defs sample_defs)
  then show ?thesis by (rule run_from_reachable)
qed

lemma reachable_past_limit: "reachable past_limit"
proof -
  have "run_from (Some ''11'') [Settle 0 (Responded full_page)] = Some past_limit"
    by (simp add: eval_defs sample_defs)
  then show ?thesis by (rule run_from_reachable)
qed

section \<open>The Fetcher's contract\<close>

text \<open>
  Claim C1. For every page number \<open>p \<ge> 1\<close>, whether passed as a number, as a string that
  spells it or left to the default, \<^verbatim>\<open>fetchProducts\<close> computes \<open>skip = (p - 1) * 20\<close> and
  issues exactly one request, to the products endpoint with the query
  \<^verbatim>\<open>skip={skip}&limit=20\<close>; what it returns is decided by the answer to that request. The
  offset is required to stay within \<open>2 ^ 53 - 1\<close>, the range in which the doubles of the
  source compute and print it exactly.
\<close>

theorem C1_skip_and_request:
  assumes "ToNumber (page_arg a) = Some (Num p)" and "1 \<le> p"
      and "(p - 1) * 20 \<le> MAX_SAFE_INTEGER"
  shows "skip_of (Num p) = Some (Num ((p - 1) * 20)) \<and>
         fetchProducts a w =
           Some (fetchProducts_settle
                   (respond w (''https://next-ecommerce-api.vercel.app/products?skip=''
                                 @ decimal (nat ((p - 1) * 20)) @ ''&limit=20'')),
                 w\<lparr>requests := requests w @
                      [''https://next-ecommerce-api.vercel.app/products?skip=''
                         @ decimal (nat ((p - 1) * 20)) @ ''&limit=20'']\<rparr>)"
proof -
  from assms(2,3) have range: "safe p" "safe 1" "safe 20" "safe (p - 1)" "safe ((p - 1) * 20)"
    by (simp_all add: safe_def MAX_SAFE_INTEGER_def)
  then have skip: "skip_of (Num p) = Some (Num ((p - 1) * 20))"
    by (simp add: skip_of_def exact_def)
  from assms(2) range(5)
  have url: "products_url (Num ((p - 1) * 20)) =
               Some (''https://next-ecommerce-api.vercel.app/products?skip=''
                       @ decimal (nat ((p - 1) * 20)) @ ''&limit=20'')"
    by (simp add: products_url_def int_digits_def)
  from assms(1) skip url show ?thesis
    by (simp add: fetchProducts_def fetchProducts_request_def fetch_def)
qed

text \<open>
  Page 3, passed as the string of the URL query: offset 40, one request, the short page.
  The largest page of the range, 450359962737050, has the offset 9007199254740980.
\<close>

theorem C1_skip_and_request_witness:
  "ToNumber (page_arg (Some (JStr ''3''))) = Some (Num 3) \<and> (1 :: int) \<le> 3 \<and>
   (3 - 1) * 20 \<le> MAX_SAFE_INTEGER \<and>
   skip_of (Num 3) = Some (Num 40) \<and>
   fetchProducts (Some (JStr ''3'')) sample_net =
     Some (Inr \<lparr>fetchedProducts = [1, 2, 3, 4, 5], fetchedHasMore = False\<rparr>,
           sample_net\<lparr>requests :=
             [''https://next-ecommerce-api.vercel.app/products?skip=40&limit=20'']\<rparr>) \<and>
   ToNumber (page_arg (Some (JStr ''450359962737050''))) = Some (Num 450359962737050) \<and>
   (450359962737050 - 1) * 20 \<le> MAX_SAFE_INTEGER \<and>
   skip_of (Num 450359962737050) = Some (Num 9007199254740980) \<and>
   fetchProducts (Some (JStr ''450359962737050'')) sample_net =
     Some (Inl ''Error fetching products: Failed to fetch'',
           sample_net\<lparr>requests :=
             [''https://next-ecommerce-api.vercel.app/products?skip=9007199254740980&limit=20'']\<rparr>)"
  using C1_skip_and_request [of "Some (JStr ''3'')" 3 sample_net]
        C1_skip_and_request [of "Some (JStr ''450359962737050'')" 450359962737050 sample_net]
  by (simp add: eval_defs sample_defs)

text \<open>
  Claim C2. When the request is answered by a successful response whose body parses to a
  sequence \<open>data\<close>, \<^verbatim>\<open>fetchProducts\<close> returns that sequence as \<^verbatim>\<open>products\<close>, and
  \<^verbatim>\<open>hasMore\<close> is true exactly when the sequence has 20 elements. Nothing else of the
  response enters the result. This holds for every length, so for the lengths from 0 to 20.
\<close>

theorem C2_products_and_hasMore:
  assumes "fetchProducts_request a = Some url"
      and "respond w url = Responded res" and "ok res" and "json res = Inr data"
  shows "map_option fst (fetchProducts a w) =
           Some (Inr \<lparr>fetchedProducts = data, fetchedHasMore = (length data = 20)\<rparr>)"
  using assms
  by (simp add: fetchProducts_def fetch_def fetchProducts_settle_def try_body_def)

text \<open>The default page gets twenty products and \<^verbatim>\<open>hasMore = true\<close>; page 3 gets five and \<^verbatim>\<open>false\<close>.\<close>

theorem C2_products_and_hasMore_witness:
  "fetchProducts_request None =
     Some ''https://next-ecommerce-api.vercel.app/products?skip=0&limit=20'' \<and>
   respond sample_net ''https://next-ecommerce-api.vercel.app/products?skip=0&limit=20''
     = Responded full_page \<and>
   ok full_page \<and> json full_page = Inr (replicate 20 7) \<and>
   map_option fst (fetchProducts None sample_net) =
     Some (Inr \<lparr>fetchedProducts = replicate 20 7, fetchedHasMore = True\<rparr>) \<and>
   map_option fst (fetchProducts (Some (JStr ''3'')) sample_net) =
     Some (Inr \<lparr>fetchedProducts = [1, 2, 3, 4, 5], fetchedHasMore = False\<rparr>)"
  using C2_products_and_hasMore
          [of None "''https://next-ecommerce-api.vercel.app/products?skip=0&limit=20''"
              sample_net full_page "replicate 20 7"]
        C2_products_and_hasMore
          [of "Some (JStr ''3'')"
              "''https://next-ecommerce-api.vercel.app/products?skip=40&limit=20''"
              sample_net short_page "[1, 2, 3, 4, 5]"]
  by (simp add: eval_defs sample_defs)

text \<open>
  Claim C8. \<^verbatim>\<open>fetchProducts\<close> never returns normally on failure. When the answer to
  its request is a response that is not \<^verbatim>\<open>ok\<close>, it fails with an error whose message
  holds the status code and the status text; when the request is rejected, or the body of
  an \<^verbatim>\<open>ok\<close> response cannot be read, it fails with an error whose message wraps the
  message of the cause; and it returns a value only when the answer is an \<^verbatim>\<open>ok\<close>
  response with a parsed body.
\<close>

theorem C8_failures_are_errors:
  assumes "fetchProducts_request a = Some url"
  shows "(respond w1 url = Responded res1 \<and> \<not> ok res1 \<longrightarrow>
            map_option fst (fetchProducts a w1) =
              Some (Inl (''Error fetching products: '' @ ''Failed to fetch products: ''
                           @ decimal (status res1) @ '' '' @ statusText res1)))
       \<and> (respond w2 url = Rejected cause2 \<longrightarrow>
            map_option fst (fetchProducts a w2) =
              Some (Inl (''Error fetching products: '' @ cause2)))
       \<and> (respond w3 url = Responded res3 \<and> ok res3 \<and> json res3 = Inl cause3 \<longrightarrow>
            map_option fst (fetchProducts a w3) =
              Some (Inl (''Error fetching products: '' @ cause3)))
       \<and> (map_option fst (fetchProducts a w4) = Some (Inr r) \<longrightarrow>
            (\<exists>res data. respond w4 url = Responded res \<and> ok res \<and> json res = Inr data))"
proof (intro conjI impI)
  assume "respond w1 url = Responded res1 \<and> \<not> ok res1"
  then show "map_option fst (fetchProducts a w1) =
      Some (Inl (''Error fetching products: '' @ ''Failed to fetch products: ''
                   @ decimal (status res1) @ '' '' @ statusText res1))"
    by (simp add: fetchProducts_settled [OF assms] fetchProducts_settle_def try_body_def)
next
  assume "respond w2 url = Rejected cause2"
  then show "map_option fst (fetchProducts a w2) =
      Some (Inl (''Error fetching products: '' @ cause2))"
    by (simp add: fetchProducts_settled [OF assms] fetchProducts_settle_def try_body_def)
next
  assume "respond w3 url = Responded res3 \<and> ok res3 \<and> json res3 = Inl cause3"
  then show "map_option fst (fetchProducts a w3) =
      Some (Inl (''Error fetching products: '' @ cause3))"
    by (simp add: fetchProducts_settled [OF assms] fetchProducts_settle_def try_body_def)
next
  assume "map_option fst (fetchProducts a w4) = Some (Inr r)"
  then have "fetchProducts_settle (respond w4 url) = Inr r"
    by (simp add: fetchProducts_settled [OF assms])
  then show "\<exists>res data. respond w4 url = Responded res \<and> ok res \<and> json res = Inr data"
    using settle_Inr_iff [of "respond w4 url"] by blast
qed

text \<open>
  Page 3 against a server that answers 500, a connection that fails, a body that is cut
  short, and the sample network, where the one normal return comes from an \<^verbatim>\<open>ok\<close>
  response with a parsed body.
\<close>

theorem C8_failures_are_errors_witness:
  "fetchProducts_request (Some (JStr ''3'')) =
     Some ''https://next-ecommerce-api.vercel.app/products?skip=40&limit=20'' \<and>
   \<not> ok server_error \<and>
   map_option fst (fetchProducts (Some (JStr ''3'')) (answering (Responded server_error))) =
     Some (Inl ''Error fetching products: Failed to fetch products: 500 Internal Server Error'') \<and>
   map_option fst (fetchProducts (Some (JStr ''3'')) (answering (Rejected ''Failed to fetch''))) =
     Some (Inl ''Error fetching products: Failed to fetch'') \<and>
   ok bad_body \<and> json bad_body = Inl ''Unexpected end of JSON input'' \<and>
   map_option fst (fetchProducts (Some (JStr ''3'')) (answering (Responded bad_body))) =
     Some (Inl ''Error fetching products: Unexpected end of JSON input'') \<and>
   map_option fst (fetchProducts (Some (JStr ''3'')) sample_net) =
     Some (Inr \<lparr>fetchedProducts = [1, 2, 3, 4, 5], fetchedHasMore = False\<rparr>) \<and>
   respond sample_net ''https://next-ecommerce-api.vercel.app/products?skip=40&limit=20''
     = Responded short_page \<and>
   ok short_page \<and> json short_page = Inr [1, 2, 3, 4, 5]"
  using C8_failures_are_errors
          [of "Some (JStr ''3'')"
              "''https://next-ecommerce-api.vercel.app/products?skip=40&limit=20''"
              "answering (Responded server_error)" server_error
              "answering (Rejected ''Failed to fetch'')" "''Failed to fetch''"
              "answering (Responded bad_body)" bad_body "''Unexpected end of JSON input''"
              sample_net "\<lparr>fetchedProducts = [1, 2, 3, 4, 5], fetchedHasMore = False\<rparr>"]
  by (simp add: eval_defs sample_defs)

text \<open>
  Claim C9. Two fetches of the same page return the same result whenever the backend
  answers the same way, whatever was requested in between: the result depends on the page
  and on the backend's answers only, and a fetch leaves the backend's answers as they were.
\<close>

theorem C9_same_page_same_result:
  assumes "fetchProducts a w = Some (r1, w1)"
      and "respond w' = respond w"
      and "fetchProducts a w' = Some (r2, w2)"
  shows "r1 = r2 \<and> respond w1 = respond w"
  using assms
  by (auto simp: fetchProducts_def fetch_def split: option.splits)

text \<open>Page 3 fetched twice in a row, the second time on the network the first fetch left.\<close>

theorem C9_same_page_same_result_witness:
  "fetchProducts (Some (JStr ''3'')) sample_net =
     Some (Inr \<lparr>fetchedProducts = [1, 2, 3, 4, 5], fetchedHasMore = False\<rparr>,
           sample_net\<lparr>requests :=
             [''https://next-ecommerce-api.vercel.app/products?skip=40&limit=20'']\<rparr>) \<and>
   fetchProducts (Some (JStr ''3''))
       (sample_net\<lparr>requests :=
          [''https://next-ecommerce-api.vercel.app/products?skip=40&limit=20'']\<rparr>) =
     Some (Inr \<lparr>fetchedProducts = [1, 2, 3, 4, 5], fetchedHasMore = False\<rparr>,
           sample_net\<lparr>requests :=
             [''https://next-ecommerce-api.vercel.app/products?skip=40&limit=20'',
              ''https://next-ecommerce-api.vercel.app/products?skip=40&limit=20'']\<rparr>)"
  using C9_same_page_same_result
          [of "Some (JStr ''3'')" sample_net
              "Inr \<lparr>fetchedProducts = [1, 2, 3, 4, 5], fetchedHasMore = False\<rparr>"
              "sample_net\<lparr>requests :=
                 [''https://next-ecommerce-api.vercel.app/products?skip=40&limit=20'']\<rparr>"
              "sample_net\<lparr>requests :=
                 [''https://next-ecommerce-api.vercel.app/products?skip=40&limit=20'']\<rparr>"
              "Inr \<lparr>fetchedProducts = [1, 2, 3, 4, 5], fetchedHasMore = False\<rparr>"
              "sample_net\<lparr>requests :=
                 [''https://next-ecommerce-api.vercel.app/products?skip=40&limit=20'',
                  ''https://next-ecommerce-api.vercel.app/products?skip=40&limit=20'']\<rparr>"]
  by (simp add: eval_defs sample_defs)

section \<open>The Page Controller's transitions\<close>

text \<open>
  Claim C3. When the fetch for a page number above 10 succeeds, the controller's
  \<^verbatim>\<open>hasMore\<close> is false afterwards, whatever \<^verbatim>\<open>hasMore\<close> the Fetcher reported. For a
  page number of at most 10 and a Fetcher reporting more data, \<^verbatim>\<open>hasMore\<close> is left as it
  was, so a true \<^verbatim>\<open>hasMore\<close> is kept.
\<close>

theorem C3_page_limit_forces_hasMore_false:
  assumes "i < length (inflight c)" and "fst (inflight c ! i) = pg"
      and "ToNumber pg = Some (Num n)" and "fetchProducts_settle out = Inr r"
  shows "\<exists>c'. settle i out c = Some c' \<and>
           (10 < n \<longrightarrow> \<not> hasMore (state c')) \<and>
           (n \<le> 10 \<and> fetchedHasMore r \<longrightarrow> hasMore (state c') = hasMore (state c))"
  using assms
  by (simp add: settle_def loadProducts_fulfilled_def page_gt_10_def Let_def)

text \<open>
  A full page of twenty arrives for page 11 and \<^verbatim>\<open>hasMore\<close> becomes false; the same
  response for page 3 keeps it true.
\<close>

theorem C3_page_limit_forces_hasMore_false_witness:
  "ToNumber (JStr ''11'') = Some (Num 11) \<and>
   fetchProducts_settle (Responded full_page) =
     Inr \<lparr>fetchedProducts = replicate 20 7, fetchedHasMore = True\<rparr> \<and>
   settle 0 (Responded full_page)
       (waiting ''11'' ''https://next-ecommerce-api.vercel.app/products?skip=200&limit=20'')
     = Some past_limit \<and>
   \<not> hasMore (state past_limit) \<and>
   ToNumber (JStr ''3'') = Some (Num 3) \<and>
   settle 0 (Responded full_page)
       (waiting ''3'' ''https://next-ecommerce-api.vercel.app/products?skip=40&limit=20'')
     = Some \<lparr>state = \<lparr>loading = False, products = replicate 20 7, error = None, hasMore = True\<rparr>,
             page = JStr ''3'', inflight = []\<rparr>"
  using C3_page_limit_forces_hasMore_false
          [of 0 "waiting ''11'' ''https://next-ecommerce-api.vercel.app/products?skip=200&limit=20''"
              "JStr ''11''" 11 "Responded full_page"
              "\<lparr>fetchedProducts = replicate 20 7, fetchedHasMore = True\<rparr>"]
        C3_page_limit_forces_hasMore_false
          [of 0 "waiting ''3'' ''https://next-ecommerce-api.vercel.app/products?skip=40&limit=20''"
              "JStr ''3''" 3 "Responded full_page"
              "\<lparr>fetchedProducts = replicate 20 7, fetchedHasMore = True\<rparr>"]
  by (simp add: eval_defs sample_defs)

text \<open>
  Claim C4. When the fetch fails, for whichever reason, the controller sets \<^verbatim>\<open>error\<close> to
  the fixed string "Failed to load products. Please try again later." (the message of the
  caught error is not used), sets \<^verbatim>\<open>loading\<close> to false and leaves \<^verbatim>\<open>products\<close> as it
  was; the render that follows is the error text alone, without the product grid.
\<close>

theorem C4_failure_shows_fixed_error:
  assumes "i < length (inflight c)" and "fetchProducts_settle out = Inl err"
  shows "\<exists>c'. settle i out c = Some c' \<and>
           error (state c') = Some ''Failed to load products. Please try again later.'' \<and>
           \<not> loading (state c') \<and>
           products (state c') = products (state c) \<and>
           render c' = ErrorText ''Failed to load products. Please try again later.''"
  using assms
  by (simp add: settle_def loadProducts_rejected_def error_message_def render_def Let_def)

text \<open>
  A 500 response and a failed connection, each arriving while page 2 loads over the five
  products of page 1: the same state and the same error text, the five products kept.
\<close>

theorem C4_failure_shows_fixed_error_witness:
  "fetchProducts_settle (Responded server_error) =
     Inl ''Error fetching products: Failed to fetch products: 500 Internal Server Error'' \<and>
   settle 0 (Responded server_error) stale_loading =
     Some \<lparr>state = \<lparr>loading = False, products = [1, 2, 3, 4, 5],
                     error = Some ''Failed to load products. Please try again later.'',
                     hasMore = False\<rparr>,
           page = JStr ''2'', inflight = []\<rparr> \<and>
   settle 0 (Rejected ''Failed to fetch'') stale_loading =
     settle 0 (Responded server_error) stale_loading \<and>
   render \<lparr>state = \<lparr>loading = False, products = [1, 2, 3, 4, 5 :: nat],
                     error = Some ''Failed to load products. Please try again later.'',
                     hasMore = False\<rparr>,
           page = JStr ''2'', inflight = []\<rparr>
     = ErrorText ''Failed to load products. Please try again later.''"
  using C4_failure_shows_fixed_error
          [of 0 stale_loading "Responded server_error"
              "''Error fetching products: Failed to fetch products: 500 Internal Server Error''"]
        C4_failure_shows_fixed_error
          [of 0 stale_loading "Rejected ''Failed to fetch''"
              "''Error fetching products: Failed to fetch''"]
  by (simp add: eval_defs sample_defs)

text \<open>
  Claim C5, as stated: on mount and on every change of the page number the transition
  into loading sets \<^verbatim>\<open>loading\<close> to true, sets \<^verbatim>\<open>error\<close> to null and invokes the
  Fetcher. The source never writes \<^verbatim>\<open>error\<close> except in the \<^verbatim>\<open>catch\<close> of line 71. After a
  first request that failed, the navigation to page 2 sets \<^verbatim>\<open>loading\<close> and issues the
  request for page 2, and \<^verbatim>\<open>error\<close> still holds the message of the failure.
\<close>

theorem C5_prior_error_kept_counterexample:
  "reachable failed_first \<and>
   navigate (Some ''2'') failed_first =
     Some \<lparr>state = \<lparr>loading = True, products = [],
                     error = Some ''Failed to load products. Please try again later.'',
                     hasMore = True\<rparr>,
           page = JStr ''2'',
           inflight =
             [(JStr ''2'', ''https://next-ecommerce-api.vercel.app/products?skip=20&limit=20'')]\<rparr>"
  using reachable_failed_first
  by (simp add: eval_defs sample_defs)

text \<open>
  Claim C5, amended. On mount and on every change of the page number, the transition into
  loading sets \<^verbatim>\<open>loading\<close> to true, leaves \<^verbatim>\<open>error\<close> as it is (null on mount, since that
  is its initial value; an earlier failure's message otherwise) and then invokes the
  Fetcher, whose request for the new page is now in flight.
\<close>

theorem C5_loading_transition:
  assumes "fetchProducts_request (Some (page_of q)) = Some url"
  shows "(\<exists>c0. mount q = Some c0 \<and> loading (state c0) \<and> error (state c0) = None \<and>
               inflight c0 = [(page_of q, url)]) \<and>
         (page_of q \<noteq> page c \<longrightarrow>
            (\<exists>c'. navigate q c = Some c' \<and> loading (state c') \<and>
                  error (state c') = error (state c) \<and>
                  inflight c' = inflight c @ [(page_of q, url)]))"
  using assms
  by (simp add: mount_def navigate_def run_effect_def loadProducts_start_def initial_state_def)

text \<open>Mounting on page 2, and navigating to page 2 after the first request failed.\<close>

theorem C5_loading_transition_witness:
  "fetchProducts_request (Some (page_of (Some ''2''))) =
     Some ''https://next-ecommerce-api.vercel.app/products?skip=20&limit=20'' \<and>
   mount (Some ''2'') =
     Some (waiting ''2'' ''https://next-ecommerce-api.vercel.app/products?skip=20&limit=20'') \<and>
   page_of (Some ''2'') \<noteq> page failed_first \<and>
   navigate (Some ''2'') failed_first =
     Some \<lparr>state = \<lparr>loading = True, products = [],
                     error = Some ''Failed to load products. Please try again later.'',
                     hasMore = True\<rparr>,
           page = JStr ''2'',
           inflight =
             [(JStr ''2'', ''https://next-ecommerce-api.vercel.app/products?skip=20&limit=20'')]\<rparr>"
  using C5_loading_transition
          [of "Some ''2''" "''https://next-ecommerce-api.vercel.app/products?skip=20&limit=20''"
              failed_first]
  by (simp add: eval_defs sample_defs)

text \<open>
  Claim C6, as stated: in every reachable state exactly one of the three conditions
  \<^verbatim>\<open>loading = true\<close>, \<^verbatim>\<open>error\<close> set, \<^verbatim>\<open>products\<close> populated holds and is the active view.
  The conditions are not exclusive. After a first page of five products and a navigation to
  page 2, \<^verbatim>\<open>loading\<close> is true while \<^verbatim>\<open>products\<close> still holds the five products; the view
  is the skeleton.
\<close>

theorem C6_conditions_overlap_counterexample:
  "reachable stale_loading \<and> loading (state stale_loading) \<and>
   products (state stale_loading) \<noteq> [] \<and> render stale_loading = SkeletonLoader"
  using reachable_stale_loading
  by (simp add: stale_loading_def render_def)

text \<open>
  Claim C6, amended. In every reachable state exactly one of the three views is active, and
  the conditions select it in order of priority: the skeleton when \<^verbatim>\<open>loading\<close> is true;
  otherwise the error text when \<^verbatim>\<open>error\<close> is set; otherwise the product grid, with the
  \<^verbatim>\<open>products\<close> of the state and the pagination. The conditions themselves may hold
  together.
\<close>

theorem C6_one_view_by_priority:
  assumes "reachable c"
  shows "(loading (state c) \<longrightarrow> render c = SkeletonLoader) \<and>
         (\<not> loading (state c) \<and> error (state c) \<noteq> None \<longrightarrow>
            render c = ErrorText ''Failed to load products. Please try again later.'') \<and>
         (\<not> loading (state c) \<and> error (state c) = None \<longrightarrow>
            render c = ProductGrid (products (state c)) (Pagination (page c) (hasMore (state c))))"
  using reachable_error [OF assms]
  by (auto simp: render_def error_message_def Let_def)

text \<open>One reachable state for each view: loading page 2, a failed first request, page 11 shown.\<close>

theorem C6_one_view_by_priority_witness:
  "reachable stale_loading \<and> loading (state stale_loading) \<and>
   render stale_loading = SkeletonLoader \<and>
   reachable failed_first \<and> \<not> loading (state failed_first) \<and>
   error (state failed_first) \<noteq> None \<and>
   render failed_first = ErrorText ''Failed to load products. Please try again later.'' \<and>
   reachable past_limit \<and> \<not> loading (state past_limit) \<and> error (state past_limit) = None \<and>
   render past_limit =
     ProductGrid (replicate 20 7)
       (Some \<lparr>prevLink = Some ''/?page=10'', label = ''Page 11 of 10'', nextLink = None\<rparr>)"
  using C6_one_view_by_priority [OF reachable_stale_loading]
        C6_one_view_by_priority [OF reachable_failed_first]
        C6_one_view_by_priority [OF reachable_past_limit]
        reachable_stale_loading reachable_failed_first reachable_past_limit
  by (simp add: eval_defs sample_defs)

section \<open>The Pagination Control's contract\<close>

text \<open>
  Claim C7. For every \<^verbatim>\<open>currentPage\<close> that parses to an integer \<open>n\<close> and every
  \<^verbatim>\<open>hasMore\<close>: the Previous Page link is rendered exactly when \<open>n > 1\<close> and leads to page
  \<open>n - 1\<close>; the Next Page link is rendered exactly when \<^verbatim>\<open>hasMore\<close> is true and leads to
  page \<open>n + 1\<close>; the label is always "Page {currentPage} of 10", with \<^verbatim>\<open>currentPage\<close> as
  it was passed. The integer read from \<^verbatim>\<open>currentPage\<close> is one of the range, as
  \<^verbatim>\<open>parseInt10\<close> answers no other, and \<open>n + 1\<close> is required to stay within it: there the
  doubles of the source compute and print both neighbours exactly.
\<close>

theorem C7_pagination_links_and_label:
  assumes "parseInt10 currentPage = Some (Num n)" and "n < MAX_SAFE_INTEGER"
  shows "\<exists>shown pg. ToString currentPage = Some shown \<and> Pagination currentPage hm = Some pg \<and>
           prevLink pg = (if 1 < n then Some (''/?page='' @ int_digits (n - 1)) else None) \<and>
           nextLink pg = (if hm then Some (''/?page='' @ int_digits (n + 1)) else None) \<and>
           label pg = ''Page '' @ shown @ '' of 10''"
proof -
  from assms(1) obtain shown where shown: "ToString currentPage = Some shown"
    by (auto simp: parseInt10_def split: Option.bind_splits)
  from assms(1) have "safe n"
    by (rule parseInt10_safe)
  with assms(2) have range: "safe n" "safe 1" "safe (n + 1)" "1 < n \<longrightarrow> safe (n - 1)"
    by (simp_all add: safe_def MAX_SAFE_INTEGER_def)
  with assms(1) shown show ?thesis
    by (simp add: Pagination_def link_to_def exact_def)
qed

text \<open>
  Page 3 without more data, the default page 1 with more data, and the last page whose
  successor is in the range.
\<close>

theorem C7_pagination_links_and_label_witness:
  "parseInt10 (JStr ''3'') = Some (Num 3) \<and> 3 < MAX_SAFE_INTEGER \<and>
   Pagination (JStr ''3'') False =
     Some \<lparr>prevLink = Some ''/?page=2'', label = ''Page 3 of 10'', nextLink = None\<rparr> \<and>
   parseInt10 (JNum (Num 1)) = Some (Num 1) \<and>
   Pagination (JNum (Num 1)) True =
     Some \<lparr>prevLink = None, label = ''Page 1 of 10'', nextLink = Some ''/?page=2''\<rparr> \<and>
   parseInt10 (JStr ''9007199254740990'') = Some (Num 9007199254740990) \<and>
   9007199254740990 < MAX_SAFE_INTEGER \<and>
   Pagination (JStr ''9007199254740990'') True =
     Some \<lparr>prevLink = Some ''/?page=9007199254740989'', label = ''Page 9007199254740990 of 10'',
            nextLink = Some ''/?page=9007199254740991''\<rparr>"
  using C7_pagination_links_and_label [of "JStr ''3''" 3 False]
        C7_pagination_links_and_label [of "JNum (Num 1)" 1 True]
        C7_pagination_links_and_label [of "JStr ''9007199254740990''" 9007199254740990 True]
  by (simp add: eval_defs sample_defs)

section \<open>Monotonicity of \<^verbatim>\<open>hasMore\<close>\<close>

text \<open>
  Claim C10. The controller's \<^verbatim>\<open>hasMore\<close> starts as true; every transition leaves it as
  it was or makes it false; so once it is false it is false after every later sequence of
  navigations and responses, full pages of twenty included, and no later render of the grid
  has a Next Page link.
\<close>

theorem C10_hasMore_never_true_again:
  "(mount q = Some c0 \<longrightarrow> hasMore (state c0)) \<and>
   (step c e = Some c1 \<longrightarrow> hasMore (state c1) = hasMore (state c) \<or> \<not> hasMore (state c1)) \<and>
   (run c2 es = Some c' \<and> \<not> hasMore (state c2) \<longrightarrow>
      \<not> hasMore (state c') \<and>
      (\<forall>ps pg. render c' = ProductGrid ps (Some pg) \<longrightarrow> nextLink pg = None))"
proof (intro conjI impI)
  assume "mount q = Some c0"
  then show "hasMore (state c0)"
    by (auto simp: mount_def initial_state_def dest!: run_effect_state)
next
  assume "step c e = Some c1"
  then show "hasMore (state c1) = hasMore (state c) \<or> \<not> hasMore (state c1)"
    using step_hasMore [of c e c1] by auto
next
  assume a: "run c2 es = Some c' \<and> \<not> hasMore (state c2)"
  then show "\<not> hasMore (state c')"
    using run_hasMore by blast
  then show "\<forall>ps pg. render c' = ProductGrid ps (Some pg) \<longrightarrow> nextLink pg = None"
    by (auto simp: render_def Pagination_def Let_def
             split: if_splits option.splits Option.bind_splits)
qed

text \<open>
  Mounted on page 11, a full page makes \<^verbatim>\<open>hasMore\<close> false; back on page 1 a full page
  of twenty arrives, \<^verbatim>\<open>hasMore\<close> stays false and the grid has no Next Page link.
\<close>

theorem C10_hasMore_never_true_again_witness:
  "mount (Some ''11'') =
     Some (waiting ''11'' ''https://next-ecommerce-api.vercel.app/products?skip=200&limit=20'') \<and>
   hasMore (state (waiting ''11''
                     ''https://next-ecommerce-api.vercel.app/products?skip=200&limit=20'')) \<and>
   step (waiting ''11'' ''https://next-ecommerce-api.vercel.app/products?skip=200&limit=20'')
        (Settle 0 (Responded full_page)) = Some past_limit \<and>
   \<not> hasMore (state past_limit) \<and>
   run past_limit [Navigate (Some ''1''), Settle 0 (Responded full_page)] =
     Some \<lparr>state = \<lparr>loading = False, products = replicate 20 7, error = None, hasMore = False\<rparr>,
           page = JStr ''1'', inflight = []\<rparr> \<and>
   render \<lparr>state = \<lparr>loading = False, products = replicate 20 (7 :: nat), error = None,
                     hasMore = False\<rparr>,
           page = JStr ''1'', inflight = []\<rparr> =
     ProductGrid (replicate 20 7)
       (Some \<lparr>prevLink = None, label = ''Page 1 of 10'', nextLink = None\<rparr>)"
  using C10_hasMore_never_true_again
          [of "Some ''11''"
              "waiting ''11'' ''https://next-ecommerce-api.vercel.app/products?skip=200&limit=20''"
              "waiting ''11'' ''https://next-ecommerce-api.vercel.app/products?skip=200&limit=20''"
              "Settle 0 (Responded full_page)" past_limit past_limit
              "[Navigate (Some ''1''), Settle 0 (Responded full_page)]"
              "\<lparr>state = \<lparr>loading = False, products = replicate 20 7, error = None,
                          hasMore = False\<rparr>,
                page = JStr ''1'', inflight = []\<rparr>"]
  by (simp add: eval_defs sample_defs)

end
